theory Spec2Isabelle
  imports Main
begin

section \<open>Scope\<close>

text \<open>
  Package \<open>cmgs3\<close> implements the storage interface of a certificate manager on top of
  an S3 bucket: \<open>Lock\<close>, \<open>Unlock\<close>, \<open>Store\<close>, \<open>Load\<close>, \<open>Delete\<close>, \<open>Exists\<close>,
  \<open>List\<close>, \<open>Stat\<close>, and the constructor \<open>NewS3Storage\<close>.

  The sources hold the storage file twice. The definitions below follow the variant
  that removes stale locks, watches the caller's context while polling and maps a
  missing object to \<^verbatim>\<open>fs.ErrNotExist\<close> (\<^verbatim>\<open>src/unnamed/part_000\<close>). The other variant
  (\<^verbatim>\<open>src/generic-s3.go\<close>) has the same key check in its constructor and the same
  \<open>Exists\<close>, \<open>Store\<close>, \<open>Delete\<close> and naming functions; its \<open>Lock\<close> has no stale-lock branch and no \<^verbatim>\<open>select\<close> on the
  context, its \<open>Load\<close> and \<open>Stat\<close> pass every error on as it is, and its \<open>List\<close>
  passes its two arguments to the client without prefixing.
\<close>

section \<open>Errors\<close>

text \<open>
  The storage backend of package \<open>cmgs3\<close> talks to an S3 bucket through the minio
  client. The client is an external library: its calls either succeed or return an
  error value. The code inspects such an error in one way only, through
  \<^verbatim>\<open>errors.As(err, &respErr)\<close> followed by a test of \<^verbatim>\<open>respErr.StatusCode\<close>.
  A client error is therefore either a \<^verbatim>\<open>minio.ErrorResponse\<close> with its HTTP status,
  or any other error (transport failure, cancelled request, invalid argument).
\<close>

type_synonym bytes = string

datatype client_err =
    ErrorResponse nat
  | TransportErr string

text \<open>
  The errors the package itself returns: a client error passed through unchanged,
  \<^verbatim>\<open>fmt.Errorf("msg: %w", err)\<close> (which keeps the wrapped error reachable for
  \<^verbatim>\<open>errors.As\<close>), \<^verbatim>\<open>errors.New\<close> / \<^verbatim>\<open>fmt.Errorf\<close> without a wrapped error,
  \<^verbatim>\<open>fs.ErrNotExist\<close>, the context's error \<^verbatim>\<open>ctx.Err()\<close>, and the failure of the
  encryption wrapper to decode a stored payload.
\<close>

datatype error =
    ClientErr client_err
  | Errorf string error
  | ErrorsNew string
  | ErrNotExist
  | CtxErr
  | DecodeErr

definition http_StatusNotFound :: nat where
  "http_StatusNotFound = 404"

text \<open>
  \<^verbatim>\<open>errors.As(err, &respErr)\<close>: walks the chain of wrapped errors and yields the status
  code of the first \<^verbatim>\<open>minio.ErrorResponse\<close> it finds.
\<close>

fun errors_As :: "error \<Rightarrow> nat option" where
  "errors_As (ClientErr (ErrorResponse c)) = Some c"
| "errors_As (ClientErr (TransportErr m)) = None"
| "errors_As (Errorf m e) = errors_As e"
| "errors_As (ErrorsNew m) = None"
| "errors_As ErrNotExist = None"
| "errors_As CtxErr = None"
| "errors_As DecodeErr = None"

text \<open>\<^verbatim>\<open>errors.As(err, &respErr) && respErr.StatusCode == http.StatusNotFound\<close>\<close>

definition isNotFound :: "error \<Rightarrow> bool" where
  "isNotFound e = (errors_As e = Some http_StatusNotFound)"

text \<open>\<^verbatim>\<open>errors.As(err, &respErr) && respErr.StatusCode != http.StatusNotFound\<close>\<close>

definition isOtherResponse :: "error \<Rightarrow> bool" where
  "isOtherResponse e = (case errors_As e of None \<Rightarrow> False | Some c \<Rightarrow> c \<noteq> http_StatusNotFound)"

section \<open>The environment: minio client, clock, time format, secret box\<close>

text \<open>
  Time is an integer number of nanoseconds (Go's \<^verbatim>\<open>time.Duration\<close> unit).
\<close>

definition Second :: int where
  "Second = 1000000000"

definition Minute :: int where
  "Minute = 60 * Second"

record ObjectInfo =
  Size :: nat
  LastModified :: int

text \<open>
  What the code reads from an object handle returned by \<^verbatim>\<open>GetObject\<close>:
  \<^verbatim>\<open>ioutil.ReadAll\<close> yields the bytes or an error. The minio client fetches lazily,
  so a missing object usually shows up here and not at \<^verbatim>\<open>GetObject\<close>.
\<close>

type_synonym reader = "error + bytes"

definition ioutil_ReadAll :: "reader \<Rightarrow> error + bytes" where
  "ioutil_ReadAll r = r"

text \<open>
  The libraries the package calls, as parameters. \<open>'s\<close> is the state of the object
  store. Every client call takes the bucket name first, then the object key.
  \<^item> \<open>GetObject\<close>, \<open>StatObject\<close>, \<open>ListObjects\<close>, \<open>BucketExists\<close> read the store;
  \<^item> \<open>PutObject\<close>, \<open>RemoveObject\<close> return the error (if any) and the new store;
  \<^item> \<open>minio_New\<close> validates the endpoint, without network access;
  \<^item> \<open>time_Format\<close>, \<open>time_Parse\<close> are \<^verbatim>\<open>t.Format(time.RFC3339)\<close> and
    \<^verbatim>\<open>time.Parse(time.RFC3339, s)\<close>;
  \<^item> \<open>secretbox_Seal key nonce msg\<close> and \<open>secretbox_Open key nonce box\<close> are the
    authenticated cipher of \<^verbatim>\<open>golang.org/x/crypto\<close>.
\<close>

record 's env =
  GetObject :: "'s \<Rightarrow> string \<Rightarrow> string \<Rightarrow> client_err + (client_err + bytes)"
  PutObject :: "'s \<Rightarrow> string \<Rightarrow> string \<Rightarrow> bytes \<Rightarrow> client_err option \<times> 's"
  RemoveObject :: "'s \<Rightarrow> string \<Rightarrow> string \<Rightarrow> client_err option \<times> 's"
  StatObject :: "'s \<Rightarrow> string \<Rightarrow> string \<Rightarrow> client_err + ObjectInfo"
  ListObjects :: "'s \<Rightarrow> string \<Rightarrow> string \<Rightarrow> bool \<Rightarrow> string list"
  BucketExists :: "'s \<Rightarrow> string \<Rightarrow> client_err + bool"
  minio_New :: "string \<Rightarrow> client_err option"
  time_Format :: "int \<Rightarrow> bytes"
  time_Parse :: "bytes \<Rightarrow> int option"
  secretbox_Seal :: "bytes \<Rightarrow> bytes \<Rightarrow> bytes \<Rightarrow> bytes"
  secretbox_Open :: "bytes \<Rightarrow> bytes \<Rightarrow> bytes \<Rightarrow> bytes option"

text \<open>
  Everything a call can observe or change besides its arguments: the object store, the
  wall clock, the bytes \<^verbatim>\<open>crypto/rand\<close> will deliver, and the log of what the call did
  (client requests issued and lines written with package \<^verbatim>\<open>log\<close>).
\<close>

datatype event =
    GetReq string string
  | PutReq string string bytes
  | RemoveReq string string
  | StatReq string string
  | ListReq string string bool
  | BucketExistsReq string
  | Println string
  | PrintfStale string int string

record 's world =
  store :: 's
  clock :: int
  entropy :: "nat \<Rightarrow> char"
  drawn :: nat
  trace :: "event list"

definition emit :: "event \<Rightarrow> 's world \<Rightarrow> 's world" where
  "emit e w = w\<lparr>trace := trace w @ [e]\<rparr>"

definition time_Now :: "'s world \<Rightarrow> int" where
  "time_Now w = clock w"

definition rand_Read :: "nat \<Rightarrow> 's world \<Rightarrow> bytes \<times> 's world" where
  "rand_Read n w = (map (entropy w) [drawn w ..< drawn w + n], w\<lparr>drawn := drawn w + n\<rparr>)"

text \<open>The client calls, each leaving its request in the trace.\<close>

definition s3_GetObject ::
  "'s env \<Rightarrow> string \<Rightarrow> string \<Rightarrow> 's world \<Rightarrow> (error + reader) \<times> 's world" where
  "s3_GetObject E b k w =
     ((case GetObject E (store w) b k of
         Inl e \<Rightarrow> Inl (ClientErr e)
       | Inr obj \<Rightarrow> Inr (map_sum ClientErr id obj)),
      emit (GetReq b k) w)"

definition s3_PutObject ::
  "'s env \<Rightarrow> string \<Rightarrow> string \<Rightarrow> bytes \<Rightarrow> 's world \<Rightarrow> error option \<times> 's world" where
  "s3_PutObject E b k v w =
     (case PutObject E (store w) b k v of
        (err, s') \<Rightarrow> (map_option ClientErr err, emit (PutReq b k v) (w\<lparr>store := s'\<rparr>)))"

definition s3_RemoveObject ::
  "'s env \<Rightarrow> string \<Rightarrow> string \<Rightarrow> 's world \<Rightarrow> error option \<times> 's world" where
  "s3_RemoveObject E b k w =
     (case RemoveObject E (store w) b k of
        (err, s') \<Rightarrow> (map_option ClientErr err, emit (RemoveReq b k) (w\<lparr>store := s'\<rparr>)))"

definition s3_StatObject ::
  "'s env \<Rightarrow> string \<Rightarrow> string \<Rightarrow> 's world \<Rightarrow> (error + ObjectInfo) \<times> 's world" where
  "s3_StatObject E b k w =
     (map_sum ClientErr id (StatObject E (store w) b k), emit (StatReq b k) w)"

definition s3_ListObjects ::
  "'s env \<Rightarrow> string \<Rightarrow> string \<Rightarrow> bool \<Rightarrow> 's world \<Rightarrow> string list \<times> 's world" where
  "s3_ListObjects E b p r w = (ListObjects E (store w) b p r, emit (ListReq b p r) w)"

definition s3_BucketExists ::
  "'s env \<Rightarrow> string \<Rightarrow> 's world \<Rightarrow> (error + bool) \<times> 's world" where
  "s3_BucketExists E b w =
     (map_sum ClientErr id (BucketExists E (store w) b), emit (BucketExistsReq b) w)"

section \<open>The storage type and its construction\<close>

text \<open>
  Modelled from the spec: the file defining the interface \<^verbatim>\<open>IO\<close> and its two
  implementations \<^verbatim>\<open>CleartextIO\<close> and \<^verbatim>\<open>SecretBoxIO\<close> is not among the sources. The
  spec (4.2) gives two variants chosen once at construction: cleartext, whose encode and
  decode are the identity, and secret-box, whose encode is a fresh nonce followed by the
  authenticated ciphertext under a fixed 32-byte key and whose decode splits off the
  nonce prefix and authenticates and decrypts the rest, failing on a wrong key or
  altered bytes.
\<close>

datatype IO = CleartextIO | SecretBoxIO bytes

text \<open>
  Modelled from the spec: the length of the nonce prefix is not stated there; 24 is the
  nonce length of the secret box of \<^verbatim>\<open>golang.org/x/crypto\<close>, which \<^verbatim>\<open>go.mod\<close> requires.
\<close>

definition NonceSize :: nat where
  "NonceSize = 24"

text \<open>Modelled from the spec: \<^verbatim>\<open>IO.ByteReader\<close>, the encode direction (4.2).\<close>

fun ByteReader :: "'s env \<Rightarrow> IO \<Rightarrow> bytes \<Rightarrow> 's world \<Rightarrow> bytes \<times> 's world" where
  "ByteReader E CleartextIO msg w = (msg, w)"
| "ByteReader E (SecretBoxIO key) msg w =
     (case rand_Read NonceSize w of
        (nonce, w') \<Rightarrow> (nonce @ secretbox_Seal E key nonce msg, w'))"

text \<open>
  Modelled from the spec: \<^verbatim>\<open>IO.WrapReader\<close>, the decode direction (4.2). A read error
  of the underlying object is passed on.
\<close>

fun WrapReader :: "'s env \<Rightarrow> IO \<Rightarrow> reader \<Rightarrow> reader" where
  "WrapReader E CleartextIO r = r"
| "WrapReader E (SecretBoxIO key) (Inl e) = Inl e"
| "WrapReader E (SecretBoxIO key) (Inr buf) =
     (if length buf < NonceSize then Inl DecodeErr
      else case secretbox_Open E key (take NonceSize buf) (drop NonceSize buf) of
             None \<Rightarrow> Inl DecodeErr
           | Some msg \<Rightarrow> Inr msg)"

record S3Opts =
  Endpoint :: string
  Bucket :: string
  AccessKeyID :: string
  SecretAccessKey :: string
  ObjPrefix :: string
  Insecure :: bool
  EncryptionKey :: bytes

text \<open>
  \<^verbatim>\<open>S3Storage\<close>. The field \<^verbatim>\<open>s3client\<close> is the environment \<open>E\<close> passed to every
  operation.
\<close>

record S3Storage =
  prefix :: string
  bucket :: string
  iowrap :: IO

text \<open>
  The second half of \<^verbatim>\<open>NewS3Storage\<close>: \<^verbatim>\<open>minio.New\<close>, then \<^verbatim>\<open>BucketExists\<close> under
  a timeout of five seconds.
\<close>

definition NewS3Storage_connect ::
  "'s env \<Rightarrow> S3Opts \<Rightarrow> S3Storage \<Rightarrow> 's world \<Rightarrow> (error + S3Storage) \<times> 's world" where
  "NewS3Storage_connect E opts gs3 w =
     (case minio_New E (Endpoint opts) of
        Some e \<Rightarrow> (Inl (Errorf ''geting s3 client'' (ClientErr e)), w)
      | None \<Rightarrow>
         (case s3_BucketExists E (Bucket opts) w of
            (Inl e, w') \<Rightarrow> (Inl (Errorf ''checking if bucket exists'' e), w')
          | (Inr ok, w') \<Rightarrow>
              if \<not> ok
              then (Inl (ErrorsNew (''S3 bucket '' @ Bucket opts @ '' does not exist'')), w')
              else (Inr gs3, w')))"

text \<open>
  \<^verbatim>\<open>NewS3Storage\<close>. A nil and an empty \<^verbatim>\<open>EncryptionKey\<close> are both the empty list.
\<close>

definition NewS3Storage :: "'s env \<Rightarrow> S3Opts \<Rightarrow> 's world \<Rightarrow> (error + S3Storage) \<times> 's world" where
  "NewS3Storage E opts w =
     (if length (EncryptionKey opts) = 0
      then NewS3Storage_connect E opts
             \<lparr>prefix = ObjPrefix opts, bucket = Bucket opts, iowrap = CleartextIO\<rparr>
             (emit (Println ''Clear text certificate storage active'') w)
      else if length (EncryptionKey opts) \<noteq> 32
      then (Inl (ErrorsNew ''encryption key must have exactly 32 bytes''), w)
      else NewS3Storage_connect E opts
             \<lparr>prefix = ObjPrefix opts, bucket = Bucket opts,
              iowrap = SecretBoxIO (EncryptionKey opts)\<rparr>
             (emit (Println ''Encrypted certificate storage active'') w))"

definition objName :: "S3Storage \<Rightarrow> string \<Rightarrow> string" where
  "objName gs key = prefix gs @ ''/'' @ key"

definition objLockName :: "S3Storage \<Rightarrow> string \<Rightarrow> string" where
  "objLockName gs key = objName gs key @ ''.lock''"

section \<open>Locking\<close>

definition LockExpiration :: int where
  "LockExpiration = 2 * Minute"

definition LockPollInterval :: int where
  "LockPollInterval = 1 * Second"

definition LockTimeout :: int where
  "LockTimeout = 15 * Second"

text \<open>
  \<^verbatim>\<open>putLockFile\<close>: writes the current time, formatted, under the lock name of the key and
  returns the error of \<^verbatim>\<open>PutObject\<close>.
\<close>

definition putLockFile :: "'s env \<Rightarrow> S3Storage \<Rightarrow> string \<Rightarrow> 's world \<Rightarrow> error option \<times> 's world" where
  "putLockFile E gs key w =
     s3_PutObject E (bucket gs) (objLockName gs key) (time_Format E (time_Now w)) w"

definition Unlock :: "'s env \<Rightarrow> S3Storage \<Rightarrow> string \<Rightarrow> 's world \<Rightarrow> error option \<times> 's world" where
  "Unlock E gs key w = s3_RemoveObject E (bucket gs) (objLockName gs key) w"

text \<open>\<^verbatim>\<open>Delete\<close> hands the result of \<^verbatim>\<open>RemoveObject\<close> on the prefixed key back as it is.\<close>

definition Delete :: "'s env \<Rightarrow> S3Storage \<Rightarrow> string \<Rightarrow> 's world \<Rightarrow> error option \<times> 's world" where
  "Delete E gs key w = s3_RemoveObject E (bucket gs) (objName gs key) w"

text \<open>
  The caller's context: the instant at which its \<^verbatim>\<open>Done\<close> channel closes (by
  cancellation or deadline), if it ever does.
\<close>

type_synonym ctx = "int option"

text \<open>
  An operation hands its context to every client call it makes. Go's HTTP client does
  not send a request whose context is already done: the minio call fails with the
  context's error and changes nothing; for \<^verbatim>\<open>GetObject\<close>, which fetches lazily, the
  failure arrives at the read. \<open>with_ctx c w E\<close> is the client \<open>E\<close> as a call made
  with context \<open>c\<close> in world \<open>w\<close> sees it.

  \<open>Lock\<close> also waits on its context, so it takes the context as an argument and binds
  it to the client at each call. The other operations only pass their context on; the
  environment they are given stands for the client already bound to it.
\<close>

definition ctx_done :: "ctx \<Rightarrow> 's world \<Rightarrow> bool" where
  "ctx_done c w = (case c of None \<Rightarrow> False | Some d \<Rightarrow> d \<le> clock w)"

definition Canceled :: client_err where
  "Canceled = TransportErr ''context canceled''"

definition with_ctx :: "ctx \<Rightarrow> 's world \<Rightarrow> 's env \<Rightarrow> 's env" where
  "with_ctx c w E =
     (if ctx_done c w
      then E\<lparr>GetObject := (\<lambda>s b k. Inr (Inl Canceled)),
             PutObject := (\<lambda>s b k v. (Some Canceled, s)),
             RemoveObject := (\<lambda>s b k. (Some Canceled, s))\<rparr>
      else E)"

text \<open>
  The \<^verbatim>\<open>select\<close> at the end of a loop iteration: it waits for \<^verbatim>\<open>LockPollInterval\<close> or
  for the context, whichever comes first. Only here does model time pass; client calls
  take no time.
\<close>

datatype selected = TimerFired | CtxDone

definition select_wait :: "ctx \<Rightarrow> 's world \<Rightarrow> selected \<times> 's world" where
  "select_wait c w =
     (case c of
        None \<Rightarrow> (TimerFired, w\<lparr>clock := clock w + LockPollInterval\<rparr>)
      | Some d \<Rightarrow>
          if d \<le> clock w + LockPollInterval
          then (CtxDone, w\<lparr>clock := max (clock w) d\<rparr>)
          else (TimerFired, w\<lparr>clock := clock w + LockPollInterval\<rparr>))"

text \<open>What one pass through the body of the \<^verbatim>\<open>for\<close> loop of \<^verbatim>\<open>Lock\<close> ends in.\<close>

datatype flow = Return "error option" | Continue

definition returning :: "error option \<times> 's world \<Rightarrow> flow \<times> 's world" where
  "returning rw = (Return (fst rw), snd rw)"

text \<open>
  The body of the loop of \<^verbatim>\<open>Lock\<close>, branch by branch in the order of the source.
  \<open>startedAt\<close> is the time read once before the loop. \<^verbatim>\<open>GetObject\<close>,
  \<^verbatim>\<open>gs.Delete\<close> and \<^verbatim>\<open>gs.putLockFile\<close> are called with the context of \<open>Lock\<close>.
\<close>

definition Lock_body ::
  "'s env \<Rightarrow> S3Storage \<Rightarrow> ctx \<Rightarrow> int \<Rightarrow> string \<Rightarrow> 's world \<Rightarrow> flow \<times> 's world" where
  "Lock_body E gs c startedAt key w =
     (let lockFile = objLockName gs key in
      case s3_GetObject (with_ctx c w E) (bucket gs) lockFile w of
        (Inl err, w1) \<Rightarrow>
          if isNotFound err then returning (putLockFile (with_ctx c w1 E) gs key w1)
          else (Return (Some (Errorf ''acquiring lock failed'' err)), w1)
      | (Inr obj, w1) \<Rightarrow>
          (case ioutil_ReadAll obj of
             Inl err \<Rightarrow>
               if isNotFound err then returning (putLockFile (with_ctx c w1 E) gs key w1)
               else (Return (Some (Errorf ''reading lock file'' err)), w1)
           | Inr buf \<Rightarrow>
               (case time_Parse E buf of
                  None \<Rightarrow> returning (putLockFile (with_ctx c w1 E) gs key w1)
                | Some lockedAt \<Rightarrow>
                    if startedAt + LockTimeout > lockedAt
                    then returning (putLockFile (with_ctx c w1 E) gs key w1)
                    else if startedAt + LockExpiration > lockedAt
                    then
                      (let w2 = emit (PrintfStale key lockedAt (objLockName gs key)) w1 in
                       case Delete (with_ctx c w2 E) gs lockFile w2 of
                         (Some err, w3) \<Rightarrow>
                           if isOtherResponse err
                           then (Return (Some (Errorf ''unable to delete stale lockfile; deadlocked'' err)), w3)
                           else returning (putLockFile (with_ctx c w3 E) gs key w3)
                       | (None, w3) \<Rightarrow> returning (putLockFile (with_ctx c w3 E) gs key w3))
                    else
                      (case select_wait c w1 of
                         (TimerFired, w2) \<Rightarrow> (Continue, w2)
                       | (CtxDone, w2) \<Rightarrow> (Return (Some CtxErr), w2)))))"

text \<open>
  The loop has no bound of its own: with a context that never ends and a lock record
  that stays as it is, it polls forever. Not returning is the value \<open>None\<close>.
\<close>

partial_function (option) Lock_loop ::
  "'s env \<Rightarrow> S3Storage \<Rightarrow> ctx \<Rightarrow> int \<Rightarrow> string \<Rightarrow> 's world \<Rightarrow> (error option \<times> 's world) option" where
  "Lock_loop E gs c startedAt key w =
     (case Lock_body E gs c startedAt key w of
        (Return r, w') \<Rightarrow> Some (r, w')
      | (Continue, w') \<Rightarrow> Lock_loop E gs c startedAt key w')"

declare Lock_loop.simps [code]

definition Lock :: "'s env \<Rightarrow> S3Storage \<Rightarrow> ctx \<Rightarrow> string \<Rightarrow> 's world \<Rightarrow> (error option \<times> 's world) option" where
  "Lock E gs c key w = Lock_loop E gs c (time_Now w) key w"

section \<open>Store, load and the pass-through operations\<close>

definition Store ::
  "'s env \<Rightarrow> S3Storage \<Rightarrow> string \<Rightarrow> bytes \<Rightarrow> 's world \<Rightarrow> error option \<times> 's world" where
  "Store E gs key val w =
     (case ByteReader E (iowrap gs) val w of
        (r, w') \<Rightarrow> s3_PutObject E (bucket gs) (objName gs key) r w')"

definition Load :: "'s env \<Rightarrow> S3Storage \<Rightarrow> string \<Rightarrow> 's world \<Rightarrow> (error + bytes) \<times> 's world" where
  "Load E gs key w =
     (case s3_GetObject E (bucket gs) (objName gs key) w of
        (Inl err, w') \<Rightarrow>
          if isNotFound err then (Inl ErrNotExist, w') else (Inl err, w')
      | (Inr r, w') \<Rightarrow>
          (case ioutil_ReadAll (WrapReader E (iowrap gs) r) of
             Inl err \<Rightarrow> if isNotFound err then (Inl ErrNotExist, w') else (Inl err, w')
           | Inr buf \<Rightarrow> (Inr buf, w')))"

definition Exists :: "'s env \<Rightarrow> S3Storage \<Rightarrow> string \<Rightarrow> 's world \<Rightarrow> bool \<times> 's world" where
  "Exists E gs key w =
     (case s3_StatObject E (bucket gs) (objName gs key) w of
        (Inl err, w') \<Rightarrow> (False, w')
      | (Inr oi, w') \<Rightarrow> (True, w'))"

text \<open>\<^verbatim>\<open>List\<close> takes \<open>prefix\<close> and \<open>recursive\<close> and passes neither on.\<close>

definition List ::
  "'s env \<Rightarrow> S3Storage \<Rightarrow> string \<Rightarrow> bool \<Rightarrow> 's world \<Rightarrow> (error + string list) \<times> 's world" where
  "List E gs pfx recursive w =
     (case s3_ListObjects E (bucket gs) (objName gs []) True w of
        (keys, w') \<Rightarrow> (Inr keys, w'))"



section \<open>An object store in memory\<close>

text \<open>
  One instance of the environment, to run the operations on: a single bucket holding
  key/value pairs, answering the way an S3 service does.
  \<^item> \<open>GetObject\<close> returns a handle without contacting the service; reading a missing
    object fails with the 404 response.
  \<^item> \<open>PutObject\<close> replaces the object; \<open>RemoveObject\<close> succeeds whether or not the
    object was there.
  \<^item> \<open>StatObject\<close> of a missing object is the 404 response.
  \<^item> \<open>ListObjects\<close> yields the keys that start with the prefix; when not recursive,
    what follows the next \<open>/\<close> is rolled up into one entry.
  Calls naming another bucket get the 404 response.
\<close>

record mem =
  mem_bucket :: string
  objs :: "(string \<times> bytes) list"

definition NoSuchKey :: client_err where
  "NoSuchKey = ErrorResponse 404"

definition mem_GetObject :: "mem \<Rightarrow> string \<Rightarrow> string \<Rightarrow> client_err + (client_err + bytes)" where
  "mem_GetObject s b k =
     (if b \<noteq> mem_bucket s then Inr (Inl NoSuchKey)
      else case map_of (objs s) k of
             None \<Rightarrow> Inr (Inl NoSuchKey)
           | Some v \<Rightarrow> Inr (Inr v))"

definition mem_PutObject :: "mem \<Rightarrow> string \<Rightarrow> string \<Rightarrow> bytes \<Rightarrow> client_err option \<times> mem" where
  "mem_PutObject s b k v =
     (if b \<noteq> mem_bucket s then (Some NoSuchKey, s)
      else (None, s\<lparr>objs := (k, v) # filter (\<lambda>p. fst p \<noteq> k) (objs s)\<rparr>))"

definition mem_RemoveObject :: "mem \<Rightarrow> string \<Rightarrow> string \<Rightarrow> client_err option \<times> mem" where
  "mem_RemoveObject s b k =
     (if b \<noteq> mem_bucket s then (Some NoSuchKey, s)
      else (None, s\<lparr>objs := filter (\<lambda>p. fst p \<noteq> k) (objs s)\<rparr>))"

definition mem_StatObject :: "mem \<Rightarrow> string \<Rightarrow> string \<Rightarrow> client_err + ObjectInfo" where
  "mem_StatObject s b k =
     (if b \<noteq> mem_bucket s then Inl NoSuchKey
      else case map_of (objs s) k of
             None \<Rightarrow> Inl NoSuchKey
           | Some v \<Rightarrow> Inr \<lparr>Size = length v, LastModified = 0\<rparr>)"

definition hasPrefix :: "string \<Rightarrow> string \<Rightarrow> bool" where
  "hasPrefix s p = (take (length p) s = p)"

definition rollup :: "string \<Rightarrow> string \<Rightarrow> string" where
  "rollup p k =
     (let rest = drop (length p) k in
      if CHR ''/'' \<in> set rest then p @ takeWhile (\<lambda>c. c \<noteq> CHR ''/'') rest @ ''/'' else k)"

definition mem_ListObjects :: "mem \<Rightarrow> string \<Rightarrow> string \<Rightarrow> bool \<Rightarrow> string list" where
  "mem_ListObjects s b p r =
     (if b \<noteq> mem_bucket s then []
      else let ks = filter (\<lambda>k. hasPrefix k p) (map fst (objs s))
           in if r then ks else remdups (map (rollup p) ks))"

definition mem_BucketExists :: "mem \<Rightarrow> string \<Rightarrow> client_err + bool" where
  "mem_BucketExists s b = Inr (b = mem_bucket s)"

text \<open>
  The time format of the instance: whole seconds in decimal. Like RFC 3339 it drops
  what is below a second, and text that is not a timestamp does not parse.
\<close>

fun dec :: "nat \<Rightarrow> string" where
  "dec n = (if n < 10 then [char_of (48 + n)] else dec (n div 10) @ [char_of (48 + n mod 10)])"

definition isDigit :: "char \<Rightarrow> bool" where
  "isDigit c = (48 \<le> (of_char c :: nat) \<and> (of_char c :: nat) \<le> 57)"

definition undec :: "string \<Rightarrow> nat" where
  "undec s = foldl (\<lambda>a c. 10 * a + (of_char c - 48)) 0 s"

definition mem_Format :: "int \<Rightarrow> bytes" where
  "mem_Format t = dec (nat (t div Second))"

definition mem_Parse :: "bytes \<Rightarrow> int option" where
  "mem_Parse s = (if s \<noteq> [] \<and> list_all isDigit s then Some (int (undec s) * Second) else None)"

text \<open>
  The cipher of the instance is a stand-in with the shape of a secret box, not a secure
  one: the box is the key, then the nonce, then the message, and opening checks both.
\<close>

definition mem_Seal :: "bytes \<Rightarrow> bytes \<Rightarrow> bytes \<Rightarrow> bytes" where
  "mem_Seal key nonce msg = key @ nonce @ msg"

definition mem_Open :: "bytes \<Rightarrow> bytes \<Rightarrow> bytes \<Rightarrow> bytes option" where
  "mem_Open key nonce box =
     (if take (length (key @ nonce)) box = key @ nonce
      then Some (drop (length (key @ nonce)) box) else None)"

definition memE :: "mem env" where
  "memE = \<lparr>GetObject = mem_GetObject, PutObject = mem_PutObject,
           RemoveObject = mem_RemoveObject, StatObject = mem_StatObject,
           ListObjects = mem_ListObjects, BucketExists = mem_BucketExists,
           minio_New = (\<lambda>endpoint. None),
           time_Format = mem_Format, time_Parse = mem_Parse,
           secretbox_Seal = mem_Seal, secretbox_Open = mem_Open\<rparr>"

definition world0 :: "(string \<times> bytes) list \<Rightarrow> int \<Rightarrow> mem world" where
  "world0 os t = \<lparr>store = \<lparr>mem_bucket = ''certs'', objs = os\<rparr>, clock = t,
                  entropy = (\<lambda>i. CHR ''n''), drawn = 0, trace = []\<rparr>"

definition gs0 :: S3Storage where
  "gs0 = \<lparr>prefix = ''p'', bucket = ''certs'', iowrap = CleartextIO\<rparr>"

section \<open>Inputs the properties are run on\<close>

text \<open>What a call of \<open>Lock\<close> left behind: its result, the bucket, the trace, the clock.\<close>

definition outcome ::
  "(error option \<times> mem world) option \<Rightarrow>
   (error option \<times> (string \<times> bytes) list \<times> event list \<times> int) option" where
  "outcome r = map_option (\<lambda>(e, w). (e, objs (store w), trace w, clock w)) r"

text \<open>The store in memory with one call replaced by a failing one.\<close>

definition stat_fails :: "client_err \<Rightarrow> mem env" where
  "stat_fails e = memE\<lparr>StatObject := (\<lambda>s b k. Inl e)\<rparr>"

definition get_fails :: "client_err \<Rightarrow> mem env" where
  "get_fails e = memE\<lparr>GetObject := (\<lambda>s b k. Inl e)\<rparr>"

definition read_fails :: "client_err \<Rightarrow> mem env" where
  "read_fails e = memE\<lparr>GetObject := (\<lambda>s b k. Inr (Inl e))\<rparr>"

definition put_fails :: "client_err \<Rightarrow> mem env" where
  "put_fails e = memE\<lparr>PutObject := (\<lambda>s b k v. (Some e, s))\<rparr>"

definition remove_fails :: "client_err \<Rightarrow> mem env" where
  "remove_fails e = memE\<lparr>RemoveObject := (\<lambda>s b k. (Some e, s))\<rparr>"

definition opts_key :: "bytes \<Rightarrow> S3Opts" where
  "opts_key k = \<lparr>Endpoint = ''s3.example.org'', Bucket = ''certs'', AccessKeyID = ''id'',
                 SecretAccessKey = ''secret'', ObjPrefix = ''p'', Insecure = False,
                 EncryptionKey = k\<rparr>"

definition key32 :: bytes where
  "key32 = replicate 32 (CHR ''k'')"

definition gs1 :: S3Storage where
  "gs1 = \<lparr>prefix = ''p'', bucket = ''certs'', iowrap = SecretBoxIO key32\<rparr>"

text \<open>A lock record dated 130 seconds after the clock: \<open>Lock\<close> polls on it.\<close>

definition w_held :: "mem world" where
  "w_held = world0 [(''p/k.lock'', ''230'')] (100 * Second)"

text \<open>A lock record dated 30 seconds after the clock: \<open>Lock\<close> takes the stale branch on it.\<close>

definition w_stale :: "mem world" where
  "w_stale = world0 [(''p/k.lock'', ''130'')] (100 * Second)"

text \<open>The world a first, successful \<open>Lock\<close> on an empty bucket leaves, one second later.\<close>

definition after_first_lock :: "mem world" where
  "after_first_lock =
     (case Lock memE gs0 None ''k'' (world0 [] (100 * Second)) of
        None \<Rightarrow> world0 [] (100 * Second)
      | Some (r, w) \<Rightarrow> w\<lparr>clock := 101 * Second\<rparr>)"

section \<open>Construction\<close>

text \<open>
  C8. Construction with no encryption key selects the cleartext wrapper; with a key whose
  length is not exactly 32 bytes it fails at once with the configuration error, before
  any network access (the world, and with it the trace of client requests, is returned
  as it was); with a key of exactly 32 bytes it selects the secret-box wrapper. A
  storage value that construction returns carries the wrapper so selected.
\<close>

theorem NewS3Storage_key_policy:
  "(length (EncryptionKey opts) \<noteq> 0 \<and> length (EncryptionKey opts) \<noteq> 32 \<longrightarrow>
      NewS3Storage E opts w = (Inl (ErrorsNew ''encryption key must have exactly 32 bytes''), w))
   \<and> (\<forall>gs w'. NewS3Storage E opts w = (Inr gs, w') \<longrightarrow>
        (length (EncryptionKey opts) = 0 \<longrightarrow> iowrap gs = CleartextIO)
      \<and> (length (EncryptionKey opts) \<noteq> 0 \<longrightarrow>
           length (EncryptionKey opts) = 32 \<and> iowrap gs = SecretBoxIO (EncryptionKey opts)))"
  by (auto simp: NewS3Storage_def NewS3Storage_connect_def Let_def
           split: option.splits sum.splits prod.splits if_splits)

lemma NewS3Storage_mem_ok:
  "length k = 0 \<or> length k = 32 \<Longrightarrow>
   \<exists>gs w'. NewS3Storage memE (opts_key k) (world0 [] 0) = (Inr gs, w')"
  by (auto simp: NewS3Storage_def NewS3Storage_connect_def Let_def memE_def opts_key_def
                 s3_BucketExists_def mem_BucketExists_def world0_def emit_def)

theorem NewS3Storage_key_policy_witness:
  "fst (NewS3Storage memE (opts_key ''0123456789abcdef'') (world0 [] 0))
     = Inl (ErrorsNew ''encryption key must have exactly 32 bytes'')
   \<and> trace (snd (NewS3Storage memE (opts_key ''0123456789abcdef'') (world0 [] 0))) = []
   \<and> (\<exists>gs w'. NewS3Storage memE (opts_key []) (world0 [] 0) = (Inr gs, w')
         \<and> iowrap gs = CleartextIO)
   \<and> (\<exists>gs w'. NewS3Storage memE (opts_key key32) (world0 [] 0) = (Inr gs, w')
         \<and> iowrap gs = SecretBoxIO key32)"
proof -
  have bad: "length (EncryptionKey (opts_key ''0123456789abcdef'')) \<noteq> 0
      \<and> length (EncryptionKey (opts_key ''0123456789abcdef'')) \<noteq> 32"
    by (simp add: opts_key_def)
  have a: "NewS3Storage memE (opts_key ''0123456789abcdef'') (world0 [] 0)
      = (Inl (ErrorsNew ''encryption key must have exactly 32 bytes''), world0 [] 0)"
    using bad NewS3Storage_key_policy [of "opts_key ''0123456789abcdef''" memE "world0 [] 0"]
    by blast
  obtain g0 w0 where c0: "NewS3Storage memE (opts_key []) (world0 [] 0) = (Inr g0, w0)"
    using NewS3Storage_mem_ok [of "[]"] by auto
  have b: "iowrap g0 = CleartextIO"
    using c0 NewS3Storage_key_policy [of "opts_key []" memE "world0 [] 0"]
    by (simp add: opts_key_def)
  obtain g1 w1 where c1: "NewS3Storage memE (opts_key key32) (world0 [] 0) = (Inr g1, w1)"
    using NewS3Storage_mem_ok [of key32] by (auto simp: key32_def)
  have c: "iowrap g1 = SecretBoxIO key32"
    using c1 NewS3Storage_key_policy [of "opts_key key32" memE "world0 [] 0"]
    by (simp add: opts_key_def key32_def)
  show ?thesis
    using a b c c0 c1 by (simp add: world0_def)
qed

section \<open>Exists\<close>

text \<open>
  C10. \<open>Exists key\<close> is true exactly when the stat of the prefixed object succeeds. It
  is false on every error of the stat, whatever the error: a transport failure gives the
  same answer as a missing object.
\<close>

theorem Exists_iff_stat_succeeds:
  "fst (Exists E gs key w) = (\<exists>oi. StatObject E (store w) (bucket gs) (objName gs key) = Inr oi)
   \<and> (\<forall>e. StatObject E (store w) (bucket gs) (objName gs key) = Inl e \<longrightarrow>
          fst (Exists E gs key w) = False)"
  by (cases "StatObject E (store w) (bucket gs) (objName gs key)")
     (simp_all add: Exists_def s3_StatObject_def)

theorem Exists_iff_stat_succeeds_witness:
  "StatObject (stat_fails (TransportErr ''connection reset''))
       (store (world0 [(''p/k'', ''v'')] 0)) (bucket gs0) (objName gs0 ''k'')
     = Inl (TransportErr ''connection reset'')
   \<and> fst (Exists (stat_fails (TransportErr ''connection reset'')) gs0 ''k''
            (world0 [(''p/k'', ''v'')] 0)) = False
   \<and> fst (Exists memE gs0 ''missing'' (world0 [(''p/k'', ''v'')] 0)) = False
   \<and> fst (Exists memE gs0 ''k'' (world0 [(''p/k'', ''v'')] 0)) = True"
proof -
  have "fst (Exists memE gs0 ''missing'' (world0 [(''p/k'', ''v'')] 0)) = False"
    by (simp add: Exists_def s3_StatObject_def memE_def mem_StatObject_def gs0_def
          world0_def objName_def)
  moreover have "fst (Exists memE gs0 ''k'' (world0 [(''p/k'', ''v'')] 0)) = True"
    by (simp add: Exists_def s3_StatObject_def memE_def mem_StatObject_def gs0_def
          world0_def objName_def)
  ultimately show ?thesis
    using Exists_iff_stat_succeeds [of "stat_fails (TransportErr ''connection reset'')" gs0
        "''k''" "world0 [(''p/k'', ''v'')] 0"]
    by (simp add: stat_fails_def)
qed

section \<open>Locking: cancellation and storage errors\<close>




lemma Delete_clock: "clock (snd (Delete E gs key w)) = clock w"
  by (auto simp: Delete_def s3_RemoveObject_def emit_def split: prod.splits)

lemma Delete_clockD: "Delete E gs k w = (r, w') \<Longrightarrow> clock w' = clock w"
  using Delete_clock [of E gs k w] by simp

lemma emit_clock: "clock (emit e w) = clock w"
  by (simp add: emit_def)

lemma with_ctx_live: "\<not> ctx_done c w \<Longrightarrow> with_ctx c w E = E"
  by (simp add: with_ctx_def)

lemma with_ctx_None: "with_ctx None w E = E"
  by (simp add: with_ctx_def ctx_done_def)

lemma ctx_done_clock: "clock w' = clock w \<Longrightarrow> ctx_done c w' = ctx_done c w"
  by (cases c) (simp_all add: ctx_done_def)

lemma GetObject_with_ctx:
  "GetObject (with_ctx c w E) s b k = (if ctx_done c w then Inr (Inl Canceled) else GetObject E s b k)"
  by (simp add: with_ctx_def)

lemma isNotFound_Canceled: "\<not> isNotFound (ClientErr Canceled)"
  by (simp add: isNotFound_def Canceled_def)

lemma Lock_body_done:
  assumes "ctx_done c w"
  shows "Lock_body E gs c t key w =
           (Return (Some (Errorf ''reading lock file'' (ClientErr Canceled))),
            emit (GetReq (bucket gs) (objLockName gs key)) w)"
  using assms
  by (simp add: Lock_body_def Let_def s3_GetObject_def GetObject_with_ctx ioutil_ReadAll_def
        isNotFound_Canceled)

lemma Lock_body_live:
  assumes live: "\<not> ctx_done c w"
  shows "Lock_body E gs c startedAt key w =
     (let lockFile = objLockName gs key in
      case s3_GetObject E (bucket gs) lockFile w of
        (Inl err, w1) \<Rightarrow>
          if isNotFound err then returning (putLockFile E gs key w1)
          else (Return (Some (Errorf ''acquiring lock failed'' err)), w1)
      | (Inr obj, w1) \<Rightarrow>
          (case ioutil_ReadAll obj of
             Inl err \<Rightarrow>
               if isNotFound err then returning (putLockFile E gs key w1)
               else (Return (Some (Errorf ''reading lock file'' err)), w1)
           | Inr buf \<Rightarrow>
               (case time_Parse E buf of
                  None \<Rightarrow> returning (putLockFile E gs key w1)
                | Some lockedAt \<Rightarrow>
                    if startedAt + LockTimeout > lockedAt
                    then returning (putLockFile E gs key w1)
                    else if startedAt + LockExpiration > lockedAt
                    then
                      (let w2 = emit (PrintfStale key lockedAt (objLockName gs key)) w1 in
                       case Delete E gs lockFile w2 of
                         (Some err, w3) \<Rightarrow>
                           if isOtherResponse err
                           then (Return (Some (Errorf ''unable to delete stale lockfile; deadlocked'' err)), w3)
                           else returning (putLockFile E gs key w3)
                       | (None, w3) \<Rightarrow> returning (putLockFile E gs key w3))
                    else
                      (case select_wait c w1 of
                         (TimerFired, w2) \<Rightarrow> (Continue, w2)
                       | (CtxDone, w2) \<Rightarrow> (Return (Some CtxErr), w2)))))"
proof -
  have same: "with_ctx c w' E = E" if "clock w' = clock w" for w'
    using ctx_done_clock [OF that, of c] live by (simp add: with_ctx_live)
  have e1: "with_ctx c w E = E"
    by (simp add: same)
  have e2: "with_ctx c (emit e w) E = E" for e
    by (simp add: same emit_clock)
  have e3: "with_ctx c (emit e' (emit e w)) E = E" for e e'
    by (simp add: same emit_clock)
  have e4: "with_ctx c w3 E = E" if "Delete E gs k (emit e' (emit e w)) = (r, w3)" for e e' k r w3
    using Delete_clockD [OF that] by (intro same) (simp add: emit_clock)
  show ?thesis
    unfolding Lock_body_def Let_def
    by (auto simp: e1 e2 e3 e4 s3_GetObject_def split: sum.splits option.splits prod.splits)
qed












lemma isNotFound_ClientErr: "isNotFound (ClientErr e) = (e = ErrorResponse 404)"
  by (cases e) (auto simp: isNotFound_def http_StatusNotFound_def)

lemma Lock_loop_get_error:
  assumes "GetObject (with_ctx c w E) (store w) (bucket gs) (objLockName gs key) = Inl e"
    and "e \<noteq> ErrorResponse 404"
  shows "Lock_loop E gs c t key w =
           Some (Some (Errorf ''acquiring lock failed'' (ClientErr e)),
                 emit (GetReq (bucket gs) (objLockName gs key)) w)"
proof -
  have live: "\<not> ctx_done c w"
    using assms(1) by (auto simp: GetObject_with_ctx split: if_splits)
  then have "GetObject E (store w) (bucket gs) (objLockName gs key) = Inl e"
    using assms(1) by (simp add: GetObject_with_ctx)
  then show ?thesis
    using assms(2)
    by (subst Lock_loop.simps)
       (simp add: Lock_body_live [OF live] s3_GetObject_def isNotFound_ClientErr)
qed

lemma Lock_loop_read_error:
  assumes "GetObject (with_ctx c w E) (store w) (bucket gs) (objLockName gs key) = Inr (Inl e)"
    and "e \<noteq> ErrorResponse 404"
  shows "Lock_loop E gs c t key w =
           Some (Some (Errorf ''reading lock file'' (ClientErr e)),
                 emit (GetReq (bucket gs) (objLockName gs key)) w)"
proof (cases "ctx_done c w")
  case True
  then have "e = Canceled"
    using assms(1) by (simp add: GetObject_with_ctx)
  then show ?thesis
    by (subst Lock_loop.simps) (simp add: Lock_body_done [OF True])
next
  case False
  then have "GetObject E (store w) (bucket gs) (objLockName gs key) = Inr (Inl e)"
    using assms(1) by (simp add: GetObject_with_ctx)
  then show ?thesis
    using assms(2)
    by (subst Lock_loop.simps)
       (simp add: Lock_body_live [OF False] s3_GetObject_def ioutil_ReadAll_def
          isNotFound_ClientErr)
qed

lemma putLockFile_result:
  "fst (putLockFile E gs key w) =
     map_option ClientErr
       (fst (PutObject E (store w) (bucket gs) (objLockName gs key) (time_Format E (clock w))))"
  by (simp add: putLockFile_def s3_PutObject_def time_Now_def split: prod.splits)

lemma putLockFile_last:
  "last (trace (snd (putLockFile E gs key w))) =
     PutReq (bucket gs) (objLockName gs key) (time_Format E (clock w))"
  by (simp add: putLockFile_def s3_PutObject_def time_Now_def emit_def split: prod.splits)

lemma Delete_last: "Delete E gs k w = (r, w') \<Longrightarrow> last (trace w') = RemoveReq (bucket gs) (objName gs k)"
  by (auto simp: Delete_def s3_RemoveObject_def emit_def split: prod.splits)

lemma Lock_body_put_returns:
  assumes "Lock_body E gs c t key w = (f, w')"
    and "last (trace w') = PutReq b k v"
  shows "\<exists>w1. f = Return (fst (putLockFile E gs key w1)) \<and> w' = snd (putLockFile E gs key w1)"
proof (cases "ctx_done c w")
  case True
  then have "w' = emit (GetReq (bucket gs) (objLockName gs key)) w"
    using assms(1) by (simp add: Lock_body_done)
  then show ?thesis
    using assms(2) by (simp add: emit_def)
next
  case False
  show ?thesis
    using assms unfolding Lock_body_live [OF False]
    by (auto simp: Let_def s3_GetObject_def returning_def emit_def select_wait_def
             split: sum.splits option.splits if_splits prod.splits selected.splits
             dest: Delete_last)
qed

lemma map_sum_id_Inr: "(map_sum f id x = Inr b) = (x = Inr b)"
  by (cases x) auto

lemma Lock_body_Continue_read_ok:
  assumes "Lock_body E gs c t key w = (Continue, w')"
  shows "(\<exists>buf. GetObject E (store w) (bucket gs) (objLockName gs key) = Inr (Inr buf))
         \<and> trace w' = trace w @ [GetReq (bucket gs) (objLockName gs key)]
         \<and> store w' = store w"
proof (cases "ctx_done c w")
  case True
  then show ?thesis
    using assms by (simp add: Lock_body_done)
next
  case False
  show ?thesis
    using assms unfolding Lock_body_live [OF False]
    by (auto simp: Let_def s3_GetObject_def returning_def emit_def select_wait_def
                   ioutil_ReadAll_def map_sum_id_Inr
             split: sum.splits option.splits if_splits prod.splits selected.splits)
qed









lemma isOtherResponse_ClientErr:
  "isOtherResponse (ClientErr e) = (\<exists>code. e = ErrorResponse code \<and> code \<noteq> 404)"
  by (cases e) (auto simp: isOtherResponse_def http_StatusNotFound_def)

lemma Lock_loop_stale_delete:
  assumes rd: "GetObject (with_ctx c w E) (store w) (bucket gs) (objLockName gs key) = Inr (Inr buf)"
    and ps: "time_Parse E buf = Some lockedAt"
    and lo: "t + LockTimeout \<le> lockedAt" and hi: "lockedAt < t + LockExpiration"
    and rm: "RemoveObject E (store w) (bucket gs) (objName gs (objLockName gs key)) = (Some e, s')"
  shows "(\<forall>code. e = ErrorResponse code \<and> code \<noteq> 404 \<longrightarrow>
            map_option fst (Lock_loop E gs c t key w) =
              Some (Some (Errorf ''unable to delete stale lockfile; deadlocked'' (ClientErr e))))
         \<and> (e = ErrorResponse 404 \<longrightarrow>
              (\<exists>w3. store w3 = s' \<and> Lock_loop E gs c t key w = Some (putLockFile E gs key w3)))"
proof -
  have live: "\<not> ctx_done c w"
    using rd by (auto simp: GetObject_with_ctx split: if_splits)
  then have rd': "GetObject E (store w) (bucket gs) (objLockName gs key) = Inr (Inr buf)"
    using rd by (simp add: GetObject_with_ctx)
  let ?w2 = "emit (PrintfStale key lockedAt (objLockName gs key))
               (emit (GetReq (bucket gs) (objLockName gs key)) w)"
  let ?w3 = "emit (RemoveReq (bucket gs) (objName gs (objLockName gs key))) (?w2\<lparr>store := s'\<rparr>)"
  have del: "Delete E gs (objLockName gs key) ?w2 = (Some (ClientErr e), ?w3)"
    using rm by (simp add: Delete_def s3_RemoveObject_def emit_def)
  have body: "Lock_body E gs c t key w =
      (if isOtherResponse (ClientErr e)
       then (Return (Some (Errorf ''unable to delete stale lockfile; deadlocked'' (ClientErr e))), ?w3)
       else returning (putLockFile E gs key ?w3))"
    using rd' ps lo hi del
    by (simp add: Lock_body_live [OF live] Let_def s3_GetObject_def ioutil_ReadAll_def)
  have s3: "store ?w3 = s'"
    by (simp add: emit_def)
  show ?thesis
  proof (intro conjI allI impI)
    fix code
    assume "e = ErrorResponse code \<and> code \<noteq> 404"
    then have "isOtherResponse (ClientErr e)"
      by (simp add: isOtherResponse_ClientErr)
    then show "map_option fst (Lock_loop E gs c t key w) =
              Some (Some (Errorf ''unable to delete stale lockfile; deadlocked'' (ClientErr e)))"
      using body by (subst Lock_loop.simps) simp
  next
    assume "e = ErrorResponse 404"
    then have "\<not> isOtherResponse (ClientErr e)"
      by (simp add: isOtherResponse_ClientErr)
    then have "Lock_loop E gs c t key w = Some (putLockFile E gs key ?w3)"
      using body by (subst Lock_loop.simps) (simp add: returning_def)
    with s3 show "\<exists>w3. store w3 = s' \<and> Lock_loop E gs c t key w = Some (putLockFile E gs key w3)"
      by blast
  qed
qed

text \<open>
  C5, as stated: any read or write error inside the loop of \<open>Lock\<close>, other than not
  found on the read of the lock record, ends the call with that error. One error is
  let pass on purpose: when the delete of the stale branch is answered with the 404
  response, \<open>Lock\<close> goes on to write the lock record and returns success.
\<close>

theorem Lock_ignores_delete_not_found:
  "RemoveObject (remove_fails (ErrorResponse 404)) (store w_stale) ''certs'' ''p/p/k.lock''
     = (Some (ErrorResponse 404), store w_stale)
   \<and> outcome (Lock (remove_fails (ErrorResponse 404)) gs0 None ''k'' w_stale)
       = Some (None, [(''p/k.lock'', ''100'')],
               [GetReq ''certs'' ''p/k.lock'',
                PrintfStale ''k'' (130 * Second) ''p/k.lock'',
                RemoveReq ''certs'' ''p/p/k.lock'',
                PutReq ''certs'' ''p/k.lock'' ''100''],
               100 * Second)"
proof -
  have "RemoveObject (remove_fails (ErrorResponse 404)) (store w_stale) ''certs'' ''p/p/k.lock''
     = (Some (ErrorResponse 404), store w_stale)"
    by (simp add: remove_fails_def)
  moreover have "outcome (Lock (remove_fails (ErrorResponse 404)) gs0 None ''k'' w_stale)
       = Some (None, [(''p/k.lock'', ''100'')],
               [GetReq ''certs'' ''p/k.lock'',
                PrintfStale ''k'' (130 * Second) ''p/k.lock'',
                RemoveReq ''certs'' ''p/p/k.lock'',
                PutReq ''certs'' ''p/k.lock'' ''100''],
               100 * Second)"
    by code_simp
  ultimately show ?thesis by simp
qed

text \<open>
  C5, amended. From any iteration of the loop: an error of \<^verbatim>\<open>GetObject\<close> or of reading
  the lock record, other than the 404 response, is returned wrapped; an iteration that
  ends with the \<^verbatim>\<open>PutObject\<close> of the lock record returns exactly what that
  \<^verbatim>\<open>PutObject\<close> returned; an iteration goes on to the next one only when the read of
  the lock record succeeded and nothing was written; and when the delete of the stale
  branch is answered with an error response, a status other than 404 is returned
  wrapped, while 404 is ignored and the lock record is written.
\<close>

theorem Lock_storage_errors_abort:
  "(\<forall>e. GetObject (with_ctx c w E) (store w) (bucket gs) (objLockName gs key) = Inl e \<and> e \<noteq> ErrorResponse 404 \<longrightarrow>
        Lock_loop E gs c t key w =
          Some (Some (Errorf ''acquiring lock failed'' (ClientErr e)),
                emit (GetReq (bucket gs) (objLockName gs key)) w))
   \<and> (\<forall>e. GetObject (with_ctx c w E) (store w) (bucket gs) (objLockName gs key) = Inr (Inl e) \<and> e \<noteq> ErrorResponse 404 \<longrightarrow>
        Lock_loop E gs c t key w =
          Some (Some (Errorf ''reading lock file'' (ClientErr e)),
                emit (GetReq (bucket gs) (objLockName gs key)) w))
   \<and> (\<forall>f w' b k v. Lock_body E gs c t key w = (f, w') \<and> last (trace w') = PutReq b k v \<longrightarrow>
        (\<exists>w1. f = Return (map_option ClientErr
                   (fst (PutObject E (store w1) (bucket gs) (objLockName gs key)
                           (time_Format E (clock w1)))))
             \<and> w' = snd (putLockFile E gs key w1)))
   \<and> (\<forall>w'. Lock_body E gs c t key w = (Continue, w') \<longrightarrow>
        (\<exists>buf. GetObject E (store w) (bucket gs) (objLockName gs key) = Inr (Inr buf))
        \<and> trace w' = trace w @ [GetReq (bucket gs) (objLockName gs key)]
        \<and> store w' = store w)
   \<and> (\<forall>buf lockedAt e s'.
         GetObject (with_ctx c w E) (store w) (bucket gs) (objLockName gs key) = Inr (Inr buf)
         \<and> time_Parse E buf = Some lockedAt
         \<and> t + LockTimeout \<le> lockedAt \<and> lockedAt < t + LockExpiration
         \<and> RemoveObject E (store w) (bucket gs) (objName gs (objLockName gs key)) = (Some e, s')
         \<longrightarrow>
           (\<forall>code. e = ErrorResponse code \<and> code \<noteq> 404 \<longrightarrow>
              map_option fst (Lock_loop E gs c t key w) =
                Some (Some (Errorf ''unable to delete stale lockfile; deadlocked'' (ClientErr e))))
         \<and> (e = ErrorResponse 404 \<longrightarrow>
              (\<exists>w3. store w3 = s' \<and> Lock_loop E gs c t key w = Some (putLockFile E gs key w3))))"
proof -
  have get: "\<forall>e. GetObject (with_ctx c w E) (store w) (bucket gs) (objLockName gs key) = Inl e \<and> e \<noteq> ErrorResponse 404 \<longrightarrow>
        Lock_loop E gs c t key w =
          Some (Some (Errorf ''acquiring lock failed'' (ClientErr e)),
                emit (GetReq (bucket gs) (objLockName gs key)) w)"
    using Lock_loop_get_error by blast
  have rd: "\<forall>e. GetObject (with_ctx c w E) (store w) (bucket gs) (objLockName gs key) = Inr (Inl e) \<and> e \<noteq> ErrorResponse 404 \<longrightarrow>
        Lock_loop E gs c t key w =
          Some (Some (Errorf ''reading lock file'' (ClientErr e)),
                emit (GetReq (bucket gs) (objLockName gs key)) w)"
    using Lock_loop_read_error by blast
  have put: "\<forall>f w' b k v. Lock_body E gs c t key w = (f, w') \<and> last (trace w') = PutReq b k v \<longrightarrow>
        (\<exists>w1. f = Return (map_option ClientErr
                   (fst (PutObject E (store w1) (bucket gs) (objLockName gs key)
                           (time_Format E (clock w1)))))
             \<and> w' = snd (putLockFile E gs key w1))"
  proof (intro allI impI)
    fix f w' b k v
    assume "Lock_body E gs c t key w = (f, w') \<and> last (trace w') = PutReq b k v"
    then obtain w1 where "f = Return (fst (putLockFile E gs key w1))"
        and "w' = snd (putLockFile E gs key w1)"
      using Lock_body_put_returns by blast
    then show "\<exists>w1. f = Return (map_option ClientErr
                   (fst (PutObject E (store w1) (bucket gs) (objLockName gs key)
                           (time_Format E (clock w1)))))
             \<and> w' = snd (putLockFile E gs key w1)"
      using putLockFile_result by metis
  qed
  have cont: "\<forall>w'. Lock_body E gs c t key w = (Continue, w') \<longrightarrow>
        (\<exists>buf. GetObject E (store w) (bucket gs) (objLockName gs key) = Inr (Inr buf))
        \<and> trace w' = trace w @ [GetReq (bucket gs) (objLockName gs key)]
        \<and> store w' = store w"
    using Lock_body_Continue_read_ok by blast
  have del: "\<forall>buf lockedAt e s'.
         GetObject (with_ctx c w E) (store w) (bucket gs) (objLockName gs key) = Inr (Inr buf)
         \<and> time_Parse E buf = Some lockedAt
         \<and> t + LockTimeout \<le> lockedAt \<and> lockedAt < t + LockExpiration
         \<and> RemoveObject E (store w) (bucket gs) (objName gs (objLockName gs key)) = (Some e, s')
         \<longrightarrow>
           (\<forall>code. e = ErrorResponse code \<and> code \<noteq> 404 \<longrightarrow>
              map_option fst (Lock_loop E gs c t key w) =
                Some (Some (Errorf ''unable to delete stale lockfile; deadlocked'' (ClientErr e))))
         \<and> (e = ErrorResponse 404 \<longrightarrow>
              (\<exists>w3. store w3 = s' \<and> Lock_loop E gs c t key w = Some (putLockFile E gs key w3)))"
  proof (intro allI impI)
    fix buf lockedAt e s'
    assume h: "GetObject (with_ctx c w E) (store w) (bucket gs) (objLockName gs key) = Inr (Inr buf)
         \<and> time_Parse E buf = Some lockedAt
         \<and> t + LockTimeout \<le> lockedAt \<and> lockedAt < t + LockExpiration
         \<and> RemoveObject E (store w) (bucket gs) (objName gs (objLockName gs key)) = (Some e, s')"
    show "(\<forall>code. e = ErrorResponse code \<and> code \<noteq> 404 \<longrightarrow>
              map_option fst (Lock_loop E gs c t key w) =
                Some (Some (Errorf ''unable to delete stale lockfile; deadlocked'' (ClientErr e))))
         \<and> (e = ErrorResponse 404 \<longrightarrow>
              (\<exists>w3. store w3 = s' \<and> Lock_loop E gs c t key w = Some (putLockFile E gs key w3)))"
      by (rule Lock_loop_stale_delete [where buf = buf and lockedAt = lockedAt]) (simp_all add: h)
  qed
  from get rd put cont del show ?thesis
    by (intro conjI)
qed

lemma stale_premises:
  "GetObject (remove_fails e) (store w_stale) (bucket gs0) (objLockName gs0 ''k'') = Inr (Inr ''130'')
   \<and> time_Parse (remove_fails e) ''130'' = Some (130 * Second)
   \<and> time_Now w_stale + LockTimeout \<le> 130 * Second
   \<and> 130 * Second < time_Now w_stale + LockExpiration
   \<and> RemoveObject (remove_fails e) (store w_stale) (bucket gs0) (objName gs0 (objLockName gs0 ''k''))
        = (Some e, store w_stale)"
proof -
  have "GetObject memE (store w_stale) (bucket gs0) (objLockName gs0 ''k'') = Inr (Inr ''130'')"
    by (simp add: memE_def mem_GetObject_def w_stale_def world0_def gs0_def objLockName_def
          objName_def)
  moreover have "time_Parse memE ''130'' = Some (130 * Second)"
    by code_simp
  moreover have "time_Now w_stale + LockTimeout \<le> 130 * Second
      \<and> 130 * Second < time_Now w_stale + LockExpiration"
    by (simp add: time_Now_def w_stale_def world0_def LockTimeout_def LockExpiration_def
          Minute_def Second_def)
  ultimately show ?thesis
    by (simp add: remove_fails_def)
qed

theorem Lock_storage_errors_abort_witness:
  "map_option fst (Lock (get_fails (TransportErr ''i/o timeout'')) gs0 None ''k'' w_held)
     = Some (Some (Errorf ''acquiring lock failed'' (ClientErr (TransportErr ''i/o timeout''))))
   \<and> map_option fst (Lock (read_fails (ErrorResponse 500)) gs0 None ''k'' w_held)
     = Some (Some (Errorf ''reading lock file'' (ClientErr (ErrorResponse 500))))
   \<and> fst (Lock_body (put_fails (ErrorResponse 403)) gs0 None (100 * Second) ''k'' (world0 [] (100 * Second)))
     = Return (Some (ClientErr (ErrorResponse 403)))
   \<and> fst (Lock_body memE gs0 None (100 * Second) ''k'' w_held) = Continue
   \<and> GetObject memE (store w_held) (bucket gs0) (objLockName gs0 ''k'') = Inr (Inr ''230'')
   \<and> map_option fst (Lock (remove_fails (ErrorResponse 500)) gs0 None ''k'' w_stale)
     = Some (Some (Errorf ''unable to delete stale lockfile; deadlocked'' (ClientErr (ErrorResponse 500))))
   \<and> (\<exists>w3. Lock (remove_fails (ErrorResponse 404)) gs0 None ''k'' w_stale
         = Some (putLockFile (remove_fails (ErrorResponse 404)) gs0 ''k'' w3))"
proof -
  have g: "GetObject (get_fails (TransportErr ''i/o timeout'')) (store w_held) (bucket gs0)
             (objLockName gs0 ''k'') = Inl (TransportErr ''i/o timeout'')
           \<and> TransportErr ''i/o timeout'' \<noteq> ErrorResponse 404"
    by (simp add: get_fails_def)
  have a: "map_option fst (Lock (get_fails (TransportErr ''i/o timeout'')) gs0 None ''k'' w_held)
     = Some (Some (Errorf ''acquiring lock failed'' (ClientErr (TransportErr ''i/o timeout''))))"
    using g Lock_storage_errors_abort
            [where E = "get_fails (TransportErr ''i/o timeout'')" and w = w_held and gs = gs0
                 and key = "''k''" and c = None and t = "time_Now w_held", unfolded with_ctx_None]
    by (simp add: Lock_def)
  have r: "GetObject (read_fails (ErrorResponse 500)) (store w_held) (bucket gs0)
             (objLockName gs0 ''k'') = Inr (Inl (ErrorResponse 500))
           \<and> ErrorResponse 500 \<noteq> ErrorResponse 404"
    by (simp add: read_fails_def)
  have b: "map_option fst (Lock (read_fails (ErrorResponse 500)) gs0 None ''k'' w_held)
     = Some (Some (Errorf ''reading lock file'' (ClientErr (ErrorResponse 500))))"
    using r Lock_storage_errors_abort
            [where E = "read_fails (ErrorResponse 500)" and w = w_held and gs = gs0
                 and key = "''k''" and c = None and t = "time_Now w_held", unfolded with_ctx_None]
    by (simp add: Lock_def)
  obtain f w' where p: "Lock_body (put_fails (ErrorResponse 403)) gs0 None (100 * Second) ''k''
                          (world0 [] (100 * Second)) = (f, w')"
    by (cases "Lock_body (put_fails (ErrorResponse 403)) gs0 None (100 * Second) ''k''
                 (world0 [] (100 * Second))")
  have "last (trace (snd (Lock_body (put_fails (ErrorResponse 403)) gs0 None (100 * Second) ''k''
                 (world0 [] (100 * Second))))) = PutReq ''certs'' ''p/k.lock'' ''100''"
    by code_simp
  then have l: "last (trace w') = PutReq ''certs'' ''p/k.lock'' ''100''"
    using p by simp
  have "\<exists>w1. f = Return (map_option ClientErr
                   (fst (PutObject (put_fails (ErrorResponse 403)) (store w1) (bucket gs0)
                           (objLockName gs0 ''k'')
                           (time_Format (put_fails (ErrorResponse 403)) (clock w1)))))
             \<and> w' = snd (putLockFile (put_fails (ErrorResponse 403)) gs0 ''k'' w1)"
    by (rule Lock_storage_errors_abort
            [where E = "put_fails (ErrorResponse 403)" and w = "world0 [] (100 * Second)" and gs = gs0
                 and key = "''k''" and c = None and t = "100 * Second", unfolded with_ctx_None, THEN conjunct2, THEN conjunct2, THEN conjunct1, rule_format,
             OF conjI [OF p l]])
  then have c: "f = Return (Some (ClientErr (ErrorResponse 403)))"
    by (auto simp: put_fails_def)
  have d0: "fst (Lock_body memE gs0 None (100 * Second) ''k'' w_held) = Continue"
    by code_simp
  then obtain w2 where d: "Lock_body memE gs0 None (100 * Second) ''k'' w_held = (Continue, w2)"
    by (cases "Lock_body memE gs0 None (100 * Second) ''k'' w_held") simp
  have "\<exists>buf. GetObject memE (store w_held) (bucket gs0) (objLockName gs0 ''k'') = Inr (Inr buf)"
    using d Lock_storage_errors_abort [where E = memE and w = w_held and gs = gs0
                 and key = "''k''" and c = None and t = "100 * Second", unfolded with_ctx_None]
    by blast
  moreover have "GetObject memE (store w_held) (bucket gs0) (objLockName gs0 ''k'')
                   = Inr (if True then Inr ''230'' else Inl NoSuchKey)"
    by (simp add: memE_def mem_GetObject_def w_held_def world0_def gs0_def objLockName_def
          objName_def)
  ultimately have e: "GetObject memE (store w_held) (bucket gs0) (objLockName gs0 ''k'') = Inr (Inr ''230'')"
    by simp
  note del500 = Lock_storage_errors_abort
      [where E = "remove_fails (ErrorResponse 500)" and w = w_stale and gs = gs0
                 and key = "''k''" and c = None and t = "time_Now w_stale", unfolded with_ctx_None,
       THEN conjunct2, THEN conjunct2, THEN conjunct2, THEN conjunct2, rule_format,
       OF stale_premises [of "ErrorResponse 500"]]
  have h: "map_option fst (Lock (remove_fails (ErrorResponse 500)) gs0 None ''k'' w_stale)
     = Some (Some (Errorf ''unable to delete stale lockfile; deadlocked'' (ClientErr (ErrorResponse 500))))"
    using del500 [THEN conjunct1] by (simp add: Lock_def)
  note del404 = Lock_storage_errors_abort
      [where E = "remove_fails (ErrorResponse 404)" and w = w_stale and gs = gs0
                 and key = "''k''" and c = None and t = "time_Now w_stale", unfolded with_ctx_None,
       THEN conjunct2, THEN conjunct2, THEN conjunct2, THEN conjunct2, rule_format,
       OF stale_premises [of "ErrorResponse 404"]]
  have i: "\<exists>w3. Lock (remove_fails (ErrorResponse 404)) gs0 None ''k'' w_stale
         = Some (putLockFile (remove_fails (ErrorResponse 404)) gs0 ''k'' w3)"
    using del404 [THEN conjunct2] by (auto simp: Lock_def)
  show ?thesis
    using a b c d0 p e h i by simp
qed

text \<open>
  What the amended statement leaves open: an error of that delete which is not an error
  response (a transport failure) is ignored as well.
\<close>

lemma Lock_ignores_delete_transport_error:
  "outcome (Lock (remove_fails (TransportErr ''connection reset'')) gs0 None ''k'' w_stale)
       = Some (None, [(''p/k.lock'', ''100'')],
               [GetReq ''certs'' ''p/k.lock'',
                PrintfStale ''k'' (130 * Second) ''p/k.lock'',
                RemoveReq ''certs'' ''p/p/k.lock'',
                PutReq ''certs'' ''p/k.lock'' ''100''],
               100 * Second)"
  by code_simp

section \<open>Locking: which records are reclaimed\<close>

lemma Lock_absent_record:
  assumes "GetObject (with_ctx c w E) (store w) (bucket gs) (objLockName gs key) = Inl (ErrorResponse 404)
           \<or> GetObject (with_ctx c w E) (store w) (bucket gs) (objLockName gs key) = Inr (Inl (ErrorResponse 404))"
  shows "Lock E gs c key w =
           Some (putLockFile E gs key (emit (GetReq (bucket gs) (objLockName gs key)) w))"
proof -
  have live: "\<not> ctx_done c w"
    using assms by (auto simp: GetObject_with_ctx Canceled_def split: if_splits)
  then have "GetObject E (store w) (bucket gs) (objLockName gs key) = Inl (ErrorResponse 404)
           \<or> GetObject E (store w) (bucket gs) (objLockName gs key) = Inr (Inl (ErrorResponse 404))"
    using assms by (simp add: GetObject_with_ctx)
  then show ?thesis
    by (subst Lock_def, subst Lock_loop.simps)
       (auto simp: Lock_body_live [OF live] Let_def s3_GetObject_def ioutil_ReadAll_def
                   isNotFound_ClientErr returning_def)
qed

text \<open>
  C1. The claim: for a lock record that exists and parses, the age is the current time
  minus the recorded time; beyond the freshness threshold (15 s) the record is
  overwritten, within it the call polls. The code compares the recorded time with the
  time the call started plus the threshold, and overwrites when the recorded time is the
  earlier one. Run on a record written 10 seconds before the call, \<open>Lock\<close> returns
  success at once, having overwritten the record, without waiting.
\<close>

theorem Lock_overwrites_fresh_lock:
  "mem_Parse ''90'' = Some (90 * Second)
   \<and> 100 * Second - 90 * Second \<le> LockTimeout
   \<and> outcome (Lock memE gs0 None ''k'' (world0 [(''p/k.lock'', ''90'')] (100 * Second)))
       = Some (None, [(''p/k.lock'', ''100'')],
               [GetReq ''certs'' ''p/k.lock'', PutReq ''certs'' ''p/k.lock'' ''100''],
               100 * Second)"
  by code_simp

text \<open>
  C2. The claim: when the lock record does not exist, \<open>Lock\<close> writes one with the
  current time and returns success (so the code does, \<open>Lock_absent_record\<close>); when a
  fresh, parseable record exists, it is not overwritten in that iteration. Run twice in
  a row, one second apart and with no \<open>Unlock\<close> in between, both calls return success
  and the second overwrites the record of the first.
\<close>

theorem Lock_twice_both_succeed:
  "outcome (Lock memE gs0 None ''k'' (world0 [] (100 * Second)))
       = Some (None, [(''p/k.lock'', ''100'')],
               [GetReq ''certs'' ''p/k.lock'', PutReq ''certs'' ''p/k.lock'' ''100''],
               100 * Second)
   \<and> objs (store after_first_lock) = [(''p/k.lock'', ''100'')]
   \<and> outcome (Lock memE gs0 None ''k'' after_first_lock)
       = Some (None, [(''p/k.lock'', ''101'')],
               [GetReq ''certs'' ''p/k.lock'', PutReq ''certs'' ''p/k.lock'' ''100'',
                GetReq ''certs'' ''p/k.lock'', PutReq ''certs'' ''p/k.lock'' ''101''],
               101 * Second)"
  by code_simp

text \<open>
  C3. The claim: a lock record older than the abandonment threshold (2 min) is deleted
  under its own object key, a notice is logged, and the lock is rewritten. Run on a
  record 3 minutes old, \<open>Lock\<close> overwrites it through the first comparison: no delete,
  no notice. The branch that deletes is reached by a record dated between 15 s and
  2 min after the start of the call, and there \<open>Delete\<close> prefixes the lock name a
  second time: the request removes \<open>p/p/k.lock\<close>, and the record \<open>p/k.lock\<close> is only
  overwritten.
\<close>

theorem Lock_stale_lock_not_deleted:
  "280 * Second - 100 * Second > LockExpiration
   \<and> outcome (Lock memE gs0 None ''k'' (world0 [(''p/k.lock'', ''100'')] (280 * Second)))
       = Some (None, [(''p/k.lock'', ''280'')],
               [GetReq ''certs'' ''p/k.lock'', PutReq ''certs'' ''p/k.lock'' ''280''],
               280 * Second)
   \<and> outcome (Lock memE gs0 None ''k''
                (world0 [(''p/k.lock'', ''130''), (''p/p/k.lock'', ''x'')] (100 * Second)))
       = Some (None, [(''p/k.lock'', ''100'')],
               [GetReq ''certs'' ''p/k.lock'',
                PrintfStale ''k'' (130 * Second) ''p/k.lock'',
                RemoveReq ''certs'' ''p/p/k.lock'',
                PutReq ''certs'' ''p/k.lock'' ''100''],
               100 * Second)"
  by code_simp

section \<open>Load, Stat and Delete on a missing object\<close>




section \<open>Store then Load\<close>

lemma rand_Read_length: "length (fst (rand_Read n w)) = n"
  by (simp add: rand_Read_def)

text \<open>
  C9. For every key and payload and for both wrappers, \<open>Store\<close> followed by \<open>Load\<close>
  returns the payload. This needs of the environment what the spec asks of its
  collaborators: the store returns on a get what the last successful put wrote, and
  opening a sealed box with the same key and nonce gives the message back.
\<close>

theorem Store_Load_roundtrip:
  assumes coherent: "\<forall>s b k v s'. PutObject E s b k v = (None, s') \<longrightarrow> GetObject E s' b k = Inr (Inr v)"
    and box: "\<forall>k n m. secretbox_Open E k n (secretbox_Seal E k n m) = Some m"
    and stored: "Store E gs key v w = (None, w1)"
  shows "fst (Load E gs key w1) = Inr v"
proof -
  obtain r w0 where enc: "ByteReader E (iowrap gs) v w = (r, w0)"
    by (cases "ByteReader E (iowrap gs) v w")
  obtain err s' where put: "PutObject E (store w0) (bucket gs) (objName gs key) r = (err, s')"
    by (cases "PutObject E (store w0) (bucket gs) (objName gs key) r")
  from stored enc put have "err = None" and w1: "store w1 = s'"
    by (auto simp: Store_def s3_PutObject_def emit_def)
  with put coherent have get: "GetObject E (store w1) (bucket gs) (objName gs key) = Inr (Inr r)"
    by blast
  have dec: "WrapReader E (iowrap gs) (Inr r) = Inr v"
  proof (cases "iowrap gs")
    case CleartextIO
    with enc show ?thesis by simp
  next
    case (SecretBoxIO k)
    obtain nonce w' where rd: "rand_Read NonceSize w = (nonce, w')"
      by (cases "rand_Read NonceSize w")
    then have len: "length nonce = NonceSize"
      using rand_Read_length [of NonceSize w] by simp
    from enc SecretBoxIO rd have r: "r = nonce @ secretbox_Seal E k nonce v"
      by simp
    show ?thesis
      using SecretBoxIO r len box by simp
  qed
  show ?thesis
    using get dec by (simp add: Load_def s3_GetObject_def ioutil_ReadAll_def)
qed

lemma mem_coherent:
  "\<forall>s b k v s'. PutObject memE s b k v = (None, s') \<longrightarrow> GetObject memE s' b k = Inr (Inr v)"
  by (auto simp: memE_def mem_PutObject_def mem_GetObject_def split: if_splits)

lemma mem_box: "\<forall>k n m. secretbox_Open memE k n (secretbox_Seal memE k n m) = Some m"
  by (simp add: memE_def mem_Open_def mem_Seal_def)

theorem Store_Load_roundtrip_witness:
  "fst (Store memE gs0 ''certA/cert.pem'' ''PEM'' (world0 [] 0)) = None
   \<and> fst (Load memE gs0 ''certA/cert.pem'' (snd (Store memE gs0 ''certA/cert.pem'' ''PEM'' (world0 [] 0))))
       = Inr ''PEM''
   \<and> fst (Store memE gs1 ''certA/cert.pem'' ''PEM'' (world0 [] 0)) = None
   \<and> fst (Load memE gs1 ''certA/cert.pem'' (snd (Store memE gs1 ''certA/cert.pem'' ''PEM'' (world0 [] 0))))
       = Inr ''PEM''"
proof -
  have a: "fst (Store memE gs0 ''certA/cert.pem'' ''PEM'' (world0 [] 0)) = None"
    by code_simp
  then have a': "Store memE gs0 ''certA/cert.pem'' ''PEM'' (world0 [] 0)
      = (None, snd (Store memE gs0 ''certA/cert.pem'' ''PEM'' (world0 [] 0)))"
    by (metis prod.collapse)
  have b: "fst (Store memE gs1 ''certA/cert.pem'' ''PEM'' (world0 [] 0)) = None"
    by code_simp
  then have b': "Store memE gs1 ''certA/cert.pem'' ''PEM'' (world0 [] 0)
      = (None, snd (Store memE gs1 ''certA/cert.pem'' ''PEM'' (world0 [] 0)))"
    by (metis prod.collapse)
  show ?thesis
    using a b Store_Load_roundtrip [OF mem_coherent mem_box a']
      Store_Load_roundtrip [OF mem_coherent mem_box b']
    by simp
qed

section \<open>List\<close>

lemma List_same_for_all_arguments: "List E gs p r w = List E gs p' r' w"
  by (simp add: List_def)

text \<open>
  C7. The claim: \<open>List p r\<close> returns exactly the object keys that begin with the
  configured prefix followed by \<open>p\<close>, and honours \<open>r\<close>. The code passes neither
  argument on: it always lists, recursively, everything under the configured prefix
  (\<open>List_same_for_all_arguments\<close>). Listing \<open>a\<close> non-recursively in a bucket that
  holds \<open>p/a/x\<close>, \<open>p/a/d/y\<close>, \<open>p/b/z\<close> and \<open>q/a/x\<close> returns \<open>p/b/z\<close>, which does
  not begin with \<open>p/a\<close>, and the nested \<open>p/a/d/y\<close>, and the same as listing
  recursively.
\<close>

theorem List_ignores_arguments:
  "fst (List memE gs0 ''a'' False
          (world0 [(''p/a/x'', ''1''), (''p/a/d/y'', ''2''), (''p/b/z'', ''3''), (''q/a/x'', ''4'')] 0))
     = Inr [''p/a/x'', ''p/a/d/y'', ''p/b/z'']
   \<and> fst (List memE gs0 ''a'' True
          (world0 [(''p/a/x'', ''1''), (''p/a/d/y'', ''2''), (''p/b/z'', ''3''), (''q/a/x'', ''4'')] 0))
     = Inr [''p/a/x'', ''p/a/d/y'', ''p/b/z'']
   \<and> objName gs0 ''a'' = ''p/a''
   \<and> hasPrefix ''p/b/z'' (objName gs0 ''a'') = False"
  by code_simp

end
